theory Spec2Isabelle
  imports Complex_Main "HOL-Library.Word" "HOL-Library.Log_Nat"
begin

section \<open>Values, errors and the library functions the watchtower calls\<close>

text \<open>
  Go strings and byte slices are sequences of bytes: both are \<open>string\<close> here (a
  \<open>char\<close> is one byte). \<open>uint64\<close> is a 64-bit word: its arithmetic wraps and its
  order is the unsigned one.
\<close>

type_synonym bytes = string
type_synonym uint64 = "64 word"

text \<open>Run-time panics of the Go runtime, kept apart from returned errors.\<close>

datatype panic = IndexOutOfRange | IntegerDivideByZero

text \<open>
  Every \<open>fmt.Errorf\<close> of the watchtower is one constructor, with the arguments the
  message is rendered from and the wrapped error (\<open>%w\<close>) when there is one.
  \<open>OSError\<close> is a failed \<open>os\<close> call on a path, \<open>ExternalError\<close> an error returned by a
  collaborator outside the repository (serializer, decompressor, clients).
\<close>

datatype error =
    RuntimePanic panic
  | OSError string
  | ExternalError string
  | ChecksumTableLoadError string error
  | CheckpointLineParseError string nat
  | CheckpointLineScanError string error
  | ChecksumParseError string string
  | RecordLoadError string error
  | FilenameFormatError string
  | SlotParseError
  | FileReadError string error
  | ChecksumMismatch string string string
  | DecompressError error
  | SaveRecordError error
  | WriteFileError string error
  | OpenChecksumFileError error
  | SerializeFileError error
  | CidError error
  | StateAtSlotError uint64 error
  | UpdateRecordError error
  | LatestFinalizedBlockError error
  | BalanceCheckError error
  | RewardsCheckError error
  | PreviousUpdateError error
  | BalanceSubmittedLookupError uint64 error
  | BlockHeaderError uint64 error
  | RewardsSubmittedLookupError uint64 error

subsection \<open>strings.Split\<close>

text \<open>
  \<open>strings.Split s sep\<close> for a non-empty separator: the pieces of \<open>s\<close> between the
  non-overlapping occurrences of \<open>sep\<close>, found from the left. The result always has at
  least one element (\<open>[s]\<close> when \<open>sep\<close> does not occur, \<open>[""]\<close> for the empty string).
  Both calls of the watchtower pass a literal separator (a newline, two spaces); with an
  empty separator the model returns the single-byte pieces.
\<close>

function strings_Split_from :: "string \<Rightarrow> string \<Rightarrow> string \<Rightarrow> string list" where
  "strings_Split_from sep acc [] = [rev acc]"
| "strings_Split_from sep acc (c # cs) =
     (if sep \<noteq> [] \<and> take (length sep) (c # cs) = sep
      then rev acc # strings_Split_from sep [] (drop (length sep) (c # cs))
      else strings_Split_from sep (c # acc) cs)"
  by pat_completeness auto
termination
  by (relation "measure (\<lambda>(sep, acc, s). length s)") auto

definition strings_Split :: "string \<Rightarrow> string \<Rightarrow> string list" where
  "strings_Split s sep =
     (if sep = [] then map (\<lambda>c. [c]) s else strings_Split_from sep [] s)"

subsection \<open>Decimal and hexadecimal text\<close>

definition isDigit :: "char \<Rightarrow> bool" where
  "isDigit c = (48 \<le> (of_char c :: nat) \<and> (of_char c :: nat) \<le> 57)"

definition digitValue :: "char \<Rightarrow> nat" where
  "digitValue c = (of_char c :: nat) - 48"

definition decimalValue :: "string \<Rightarrow> nat" where
  "decimalValue ds = foldl (\<lambda>a c. 10 * a + digitValue c) 0 ds"

text \<open>
  \<open>strconv.ParseUint s 10 64\<close> on a non-empty string of decimal digits (all the
  watchtower passes): the value, or a range error when it does not fit 64 bits.
\<close>

definition strconv_ParseUint :: "string \<Rightarrow> uint64 option" where
  "strconv_ParseUint s =
     (if s = [] \<or> \<not> list_all isDigit s then None
      else if decimalValue s < 2 ^ 64 then Some (of_nat (decimalValue s)) else None)"

text \<open>The verb \<open>%d\<close> of \<open>fmt.Sprintf\<close> on an unsigned integer.\<close>

definition digitChar :: "nat \<Rightarrow> char" where
  "digitChar d = char_of (48 + d)"

fun decimal :: "nat \<Rightarrow> string" where
  "decimal n = (if n < 10 then [digitChar n] else decimal (n div 10) @ [digitChar (n mod 10)])"

declare decimal.simps [simp del]

definition hexChar :: "nat \<Rightarrow> char" where
  "hexChar d = (if d < 10 then char_of (48 + d) else char_of (87 + d))"

text \<open>\<open>hex.EncodeToString\<close>: two lowercase digits per byte.\<close>

definition hex_EncodeToString :: "bytes \<Rightarrow> string" where
  "hex_EncodeToString bs =
     concat (map (\<lambda>b. [hexChar ((of_char b :: nat) div 16), hexChar ((of_char b :: nat) mod 16)]) bs)"

definition hexValue :: "char \<Rightarrow> nat option" where
  "hexValue c =
     (let n = (of_char c :: nat) in
      if 48 \<le> n \<and> n \<le> 57 then Some (n - 48)
      else if 97 \<le> n \<and> n \<le> 102 then Some (n - 87)
      else if 65 \<le> n \<and> n \<le> 70 then Some (n - 55)
      else None)"

text \<open>
  \<open>hex.DecodeString\<close>: pairs of hexadecimal digits of either case; an invalid digit or
  an odd length is an error (\<open>None\<close>).
\<close>

fun hex_DecodeString :: "string \<Rightarrow> bytes option" where
  "hex_DecodeString [] = Some []"
| "hex_DecodeString [p] = None"
| "hex_DecodeString (p # q # rest) =
     (case hexValue p of
        None \<Rightarrow> None
      | Some a \<Rightarrow>
          (case hexValue q of
             None \<Rightarrow> None
           | Some b \<Rightarrow>
               (case hex_DecodeString rest of
                  None \<Rightarrow> None
                | Some bs \<Rightarrow> Some (char_of (16 * a + b) # bs))))"

subsection \<open>The file system\<close>

text \<open>
  The files of the records folder: the content of every existing path, and whether a
  path can be opened for writing. \<open>os.ReadFile\<close> fails on a path with no content,
  \<open>os.WriteFile\<close> replaces the content, and a file opened with
  \<open>O_APPEND|O_CREATE|O_RDWR\<close> is created empty when absent and written at its end.
\<close>

record filesystem =
  contents :: "string \<rightharpoonup> bytes"
  writable :: "string \<Rightarrow> bool"

definition os_ReadFile :: "filesystem \<Rightarrow> string \<Rightarrow> error + bytes" where
  "os_ReadFile fs path =
     (case contents fs path of None \<Rightarrow> Inl (OSError path) | Some b \<Rightarrow> Inr b)"

definition os_WriteFile :: "filesystem \<Rightarrow> string \<Rightarrow> bytes \<Rightarrow> error + filesystem" where
  "os_WriteFile fs path data =
     (if writable fs path then Inr (fs\<lparr>contents := (contents fs)(path \<mapsto> data)\<rparr>)
      else Inl (OSError path))"

definition os_OpenFile_append :: "filesystem \<Rightarrow> string \<Rightarrow> error + filesystem" where
  "os_OpenFile_append fs path =
     (if writable fs path
      then Inr (case contents fs path of
                  None \<Rightarrow> fs\<lparr>contents := (contents fs)(path \<mapsto> [])\<rparr>
                | Some b \<Rightarrow> fs)
      else Inl (OSError path))"

definition file_WriteString :: "filesystem \<Rightarrow> string \<Rightarrow> string \<Rightarrow> filesystem" where
  "file_WriteString fs path s =
     (case contents fs path of
        None \<Rightarrow> fs
      | Some b \<Rightarrow> fs\<lparr>contents := (contents fs)(path \<mapsto> b @ s)\<rparr>)"

section \<open>The rolling record and the manager's collaborators\<close>

text \<open>
  Modelled from the spec: the struct \<open>rewards.RollingRecord\<close> is declared outside the
  sources at hand. The manager reads \<open>PendingSlot\<close> and \<open>LastProcessedSlot\<close>; the spec
  names the start slot and the accumulated per-validator totals beside them.
\<close>

record RollingRecord =
  StartSlot :: uint64
  LastProcessedSlot :: uint64
  PendingSlot :: uint64
  ValidatorTotals :: "(nat \<times> nat) list"

text \<open>
  What a \<open>RollingRecordManager\<close> is built from and never changes: the records folder of
  the configuration, the Beacon configuration, and the functions of other packages it
  calls (path joining, SHA-384, the zstd encoder and decoder, the record's serializer,
  deserializer and constructor). They are parameters of the model.
\<close>

record manager_env =
  recordsPath :: string
  SlotsPerEpoch :: uint64
  filepath_Join :: "string \<Rightarrow> string \<Rightarrow> string"
  sha512_Sum384 :: "bytes \<Rightarrow> bytes"
  compressor_EncodeAll :: "bytes \<Rightarrow> bytes"
  decompressor_DecodeAll :: "bytes \<Rightarrow> error + bytes"
  Record_Serialize :: "RollingRecord \<Rightarrow> error + bytes"
  DeserializeRollingRecord :: "bytes \<Rightarrow> error + RollingRecord"
  NewRollingRecord :: "uint64 \<Rightarrow> RollingRecord"

definition checksumTableFilename :: string where
  "checksumTableFilename = ''checksums.sha384''"

text \<open>\<open>fmt.Sprintf recordsFilenameFormat slot epoch\<close>, the format being \<open>%d-%d.json.zst\<close>.\<close>

definition recordsFilename :: "uint64 \<Rightarrow> uint64 \<Rightarrow> string" where
  "recordsFilename slot epoch = decimal (unat slot) @ ''-'' @ decimal (unat epoch) @ ''.json.zst''"

section \<open>The checkpoint store\<close>

subsection \<open>The slot of a record filename\<close>

text \<open>
  \<open>recordsFilenamePattern\<close> is \<open>(?P<slot>\d+)\-(?P<epoch>\d+)\.json\.zst\<close>, not anchored.
  At a given start a match takes a non-empty run of digits, a dash, a non-empty run of
  digits and the suffix; both runs are the longest ones, since the byte after each is
  not a digit. \<open>matchRecordsFilenameAt\<close> is the \<open>slot\<close> group of the match that starts
  at the head of the string, and \<open>FindStringSubmatch\<close> takes the leftmost start.
\<close>

definition matchRecordsFilenameAt :: "string \<Rightarrow> string option" where
  "matchRecordsFilenameAt s =
     (let slotDigits = takeWhile isDigit s; afterSlot = dropWhile isDigit s in
      if slotDigits = [] then None
      else (case afterSlot of
              [] \<Rightarrow> None
            | c # afterDash \<Rightarrow>
                if c = CHR ''-'' then
                  (let epochDigits = takeWhile isDigit afterDash;
                       afterEpoch = dropWhile isDigit afterDash in
                   if epochDigits = [] then None
                   else if take 9 afterEpoch = ''.json.zst'' then Some slotDigits
                   else None)
                else None))"

fun FindStringSubmatch_slot :: "string \<Rightarrow> string option" where
  "FindStringSubmatch_slot [] = None"
| "FindStringSubmatch_slot (c # cs) =
     (case matchRecordsFilenameAt (c # cs) of
        Some slotString \<Rightarrow> Some slotString
      | None \<Rightarrow> FindStringSubmatch_slot cs)"

text \<open>
  \<open>SubexpIndex "slot"\<close> is 1 for this pattern, so the branch for \<open>-1\<close> is never taken.
\<close>

definition getSlotFromFilename :: "string \<Rightarrow> error + uint64" where
  "getSlotFromFilename filename =
     (case FindStringSubmatch_slot filename of
        None \<Rightarrow> Inl (FilenameFormatError filename)
      | Some slotString \<Rightarrow>
          (case strconv_ParseUint slotString of
             None \<Rightarrow> Inl SlotParseError
           | Some slot \<Rightarrow> Inr slot))"

subsection \<open>Loading one checkpoint\<close>

definition loadRecordFromFile ::
  "manager_env \<Rightarrow> filesystem \<Rightarrow> string \<Rightarrow> bytes \<Rightarrow> error + RollingRecord" where
  "loadRecordFromFile env fs filename expectedChecksum =
     (case os_ReadFile fs filename of
        Inl err \<Rightarrow> Inl (FileReadError filename err)
      | Inr compressedBytes \<Rightarrow>
          (let checksum = sha512_Sum384 env compressedBytes in
           if expectedChecksum \<noteq> checksum
           then Inl (ChecksumMismatch filename (hex_EncodeToString expectedChecksum)
                       (hex_EncodeToString checksum))
           else (case decompressor_DecodeAll env compressedBytes of
                   Inl err \<Rightarrow> Inl (DecompressError err)
                 | Inr bytes \<Rightarrow> DeserializeRollingRecord env bytes)))"

subsection \<open>Recovering the most recent record\<close>

text \<open>
  The loop of \<open>loadRecordFromDisk\<close> is \<open>for i := len(lines) - 1; i >= 0; i++\<close>: the
  index is a signed \<open>int\<close>, starts at the last line and is incremented. \<open>lines[i]\<close>
  panics when \<open>i\<close> is not below the length. \<open>continue\<close> runs the increment.
\<close>

function scanChecksumLines ::
  "manager_env \<Rightarrow> filesystem \<Rightarrow> uint64 \<Rightarrow> uint64 \<Rightarrow> string list \<Rightarrow> int
     \<Rightarrow> error + RollingRecord" where
  "scanChecksumLines env fs startSlot targetSlot lines i =
     (if 0 \<le> i then
        (if int (length lines) \<le> i then Inl (RuntimePanic IndexOutOfRange)
         else
           (let line = lines ! nat i in
            if line = [] then scanChecksumLines env fs startSlot targetSlot lines (i + 1)
            else
              (let elems = strings_Split line ''  '' in
               if length elems \<noteq> 2 then Inl (CheckpointLineParseError line (length elems))
               else
                 (let checksumString = elems ! 0; filename = elems ! 1 in
                  case getSlotFromFilename filename of
                    Inl err \<Rightarrow> Inl (CheckpointLineScanError line err)
                  | Inr slot \<Rightarrow>
                      if targetSlot < slot \<or> startSlot < slot
                      then scanChecksumLines env fs startSlot targetSlot lines (i + 1)
                      else
                        (case hex_DecodeString checksumString of
                           None \<Rightarrow> Inl (ChecksumParseError line checksumString)
                         | Some checksum \<Rightarrow>
                             (case loadRecordFromFile env fs filename checksum of
                                Inl err \<Rightarrow> Inl (RecordLoadError filename err)
                              | Inr record \<Rightarrow> Inr record))))))
      else Inr (NewRollingRecord env startSlot))"
  by pat_completeness auto
termination
  by (relation "measure (\<lambda>(env, fs, startSlot, targetSlot, lines, i). nat (int (length lines) - i))")
    auto

declare scanChecksumLines.simps [simp del]

definition checksumFilename :: "manager_env \<Rightarrow> string" where
  "checksumFilename env = filepath_Join env (recordsPath env) checksumTableFilename"

definition loadRecordFromDisk ::
  "manager_env \<Rightarrow> filesystem \<Rightarrow> uint64 \<Rightarrow> uint64 \<Rightarrow> error + RollingRecord" where
  "loadRecordFromDisk env fs startSlot targetSlot =
     (case os_ReadFile fs (checksumFilename env) of
        Inl err \<Rightarrow> Inl (ChecksumTableLoadError (checksumFilename env) err)
      | Inr checksumTable \<Rightarrow>
          (let lines = strings_Split checksumTable [CHR 0x0A] in
           scanChecksumLines env fs startSlot targetSlot lines (int (length lines) - 1)))"

subsection \<open>Saving the record\<close>

text \<open>
  \<open>saveRecordToFile\<close> returns its error and leaves the files it has written: the
  checkpoint file stays when the checksum table cannot be opened. The epoch is a
  \<open>uint64\<close> division, which panics on a zero divisor. The result of \<open>WriteString\<close> is
  not looked at by the source.
\<close>

definition saveRecordToFile ::
  "manager_env \<Rightarrow> RollingRecord \<Rightarrow> filesystem \<Rightarrow> error option \<times> filesystem" where
  "saveRecordToFile env record fs =
     (case Record_Serialize env record of
        Inl err \<Rightarrow> (Some (SaveRecordError err), fs)
      | Inr bytes \<Rightarrow>
          (let compressedBytes = compressor_EncodeAll env bytes;
               slot = LastProcessedSlot record in
           if SlotsPerEpoch env = 0 then (Some (RuntimePanic IntegerDivideByZero), fs)
           else
             (let epoch = LastProcessedSlot record div SlotsPerEpoch env;
                  filename = filepath_Join env (recordsPath env) (recordsFilename slot epoch) in
              case os_WriteFile fs filename compressedBytes of
                Inl err \<Rightarrow> (Some (WriteFileError filename err), fs)
              | Inr fs1 \<Rightarrow>
                  (let checksum = sha512_Sum384 env compressedBytes in
                   case os_OpenFile_append fs1 (checksumFilename env) of
                     Inl err \<Rightarrow> (Some (OpenChecksumFileError err), fs1)
                   | Inr fs2 \<Rightarrow>
                       (let checksumLine =
                              hex_EncodeToString checksum @ ''  '' @ filename @ [CHR 0x0A] in
                        (None, file_WriteString fs2 (checksumFilename env) checksumLine))))))"

section \<open>Time, durations and float64\<close>

text \<open>
  A \<open>time.Time\<close> is an instant, counted here in nanoseconds since the Unix epoch; a
  \<open>time.Duration\<close> is an \<open>int64\<close> count of nanoseconds. \<open>int64\<close> is the two's
  complement reading of an integer, so that \<open>int64 (a * b)\<close> is Go's wrapping product.
  \<open>Time.Sub\<close> saturates at the largest and smallest duration, and integer division
  truncates towards zero.
\<close>

type_synonym Time = int
type_synonym Duration = int

definition int64 :: "int \<Rightarrow> int" where
  "int64 x = (x + 2 ^ 63) mod 2 ^ 64 - 2 ^ 63"

definition time_Second :: Duration where
  "time_Second = 1000000000"

definition maxDuration :: Duration where
  "maxDuration = 2 ^ 63 - 1"

definition minDuration :: Duration where
  "minDuration = - (2 ^ 63)"

definition time_Unix :: "int \<Rightarrow> Time" where
  "time_Unix sec = sec * time_Second"

definition Time_Add :: "Time \<Rightarrow> Duration \<Rightarrow> Time" where
  "Time_Add t d = t + d"

definition Time_Sub :: "Time \<Rightarrow> Time \<Rightarrow> Duration" where
  "Time_Sub t u =
     (if maxDuration < t - u then maxDuration
      else if t - u < minDuration then minDuration
      else t - u)"

definition quo :: "int \<Rightarrow> int \<Rightarrow> int" where
  "quo a b = sgn a * sgn b * (\<bar>a\<bar> div \<bar>b\<bar>)"

definition rem :: "int \<Rightarrow> int \<Rightarrow> int" where
  "rem a b = a - b * quo a b"

text \<open>
  A \<open>float64\<close> is a rational that fits 53 significant bits, an infinity or a NaN. Every
  operation computes exactly and rounds to the nearest such rational, ties to the even
  one. All values of this program are far from the subnormal and the overflow range, so
  the exponent is not bounded. \<open>binary_exponent q\<close> is the \<open>e\<close> with
  \<open>2^e \<le> q < 2^(e+1)\<close>, for a positive \<open>q\<close>.
\<close>

datatype float64 = Finite rat | PosInf | NegInf | NaN

definition round_half_even :: "rat \<Rightarrow> int" where
  "round_half_even q =
     (let f = \<lfloor>q\<rfloor>; r = q - of_int f in
      if r < 1 / 2 then f
      else if 1 / 2 < r then f + 1
      else if even f then f else f + 1)"

definition binary_exponent :: "rat \<Rightarrow> int" where
  "binary_exponent q =
     (if 1 \<le> q then bitlen \<lfloor>q\<rfloor> - 1 else - bitlen (\<lceil>1 / q\<rceil> - 1))"

definition round_float64 :: "rat \<Rightarrow> rat" where
  "round_float64 q =
     (if q = 0 then 0
      else (let ulp = 2 powi (binary_exponent \<bar>q\<bar> - 52) in
            of_int (round_half_even (q / ulp)) * ulp))"

text \<open>\<open>float64(n)\<close> for an integer \<open>n\<close>.\<close>

definition float64_of_int :: "int \<Rightarrow> rat" where
  "float64_of_int n = round_float64 (of_int n)"

text \<open>
  \<open>Duration.Seconds\<close>: \<open>sec := d / Second; nsec := d % Second;
  return float64(sec) + float64(nsec)/1e9\<close>.
\<close>

definition Duration_Seconds :: "Duration \<Rightarrow> rat" where
  "Duration_Seconds d =
     (let sec = quo d time_Second; nsec = rem d time_Second in
      round_float64
        (float64_of_int sec + round_float64 (float64_of_int nsec / 1000000000)))"

definition float64_div :: "rat \<Rightarrow> rat \<Rightarrow> float64" where
  "float64_div a b =
     (if b = 0 then (if a = 0 then NaN else if 0 < a then PosInf else NegInf)
      else Finite (round_float64 (a / b)))"

fun math_Ceil :: "float64 \<Rightarrow> float64" where
  "math_Ceil (Finite q) = Finite (of_int \<lceil>q\<rceil>)"
| "math_Ceil x = x"

text \<open>
  \<open>uint64(x)\<close> for a \<open>float64\<close>: the fraction is discarded. When the result does not fit
  (a negative value, one beyond 64 bits, an infinity, a NaN) Go leaves it to the
  implementation: \<open>other\<close> stands for what the platform gives.
\<close>

fun uint64_of_float64 :: "(float64 \<Rightarrow> uint64) \<Rightarrow> float64 \<Rightarrow> uint64" where
  "uint64_of_float64 other (Finite q) =
     (let t = (if 0 \<le> q then \<lfloor>q\<rfloor> else \<lceil>q\<rceil>) in
      if 0 \<le> t \<and> t < 2 ^ 64 then word_of_int t else other (Finite q))"
| "uint64_of_float64 other x = other x"

section \<open>The rolling record manager\<close>

text \<open>
  The fields of \<open>state.NetworkState\<close> the manager reads. The big integers of the network
  details are naturals; \<open>Uint64\<close> takes their low 64 bits.
\<close>

record NetworkState =
  ElBlockNumber :: uint64
  BeaconSlotNumber :: uint64
  BeaconConfig_SlotsPerEpoch :: uint64
  BeaconConfig_SecondsPerSlot :: uint64
  LatestReportableBalancesBlock :: nat
  BalancesBlock :: nat
  IntervalStart :: Time
  IntervalDuration :: "64 word"
  RewardIndex :: uint64

definition big_Uint64 :: "nat \<Rightarrow> uint64" where
  "big_Uint64 n = of_nat n"

text \<open>\<open>big.Int.FillBytes\<close> on a 32-byte buffer: the magnitude, big-endian.\<close>

definition FillBytes32 :: "nat \<Rightarrow> bytes" where
  "FillBytes32 n = map (\<lambda>i. char_of ((n div 256 ^ (31 - i)) mod 256)) [0..<32]"

text \<open>
  The clients and collaborators of a manager: the genesis time of the Beacon
  configuration, the node address, the state manager, the record's update, the storage
  contract, the execution client, and the platform's conversion of a \<open>float64\<close> that
  does not fit \<open>uint64\<close>. \<open>UpdateToState\<close> changes the record in place, so it returns the
  record beside its result.
\<close>

record clients =
  GenesisTime :: uint64
  nodeAddress :: bytes
  GetLatestFinalizedBeaconBlock :: "error + uint64"
  GetStateForSlot :: "uint64 \<Rightarrow> error + NetworkState"
  UpdateToState :: "RollingRecord \<Rightarrow> NetworkState \<Rightarrow> (error + bool) \<times> RollingRecord"
  Keccak256Hash :: "bytes \<Rightarrow> bytes"
  RocketStorage_GetBool :: "bytes \<Rightarrow> error + bool"
  HeaderByNumber_Time :: "uint64 \<Rightarrow> error + uint64"
  uint64_unrepresentable :: "float64 \<Rightarrow> uint64"

text \<open>
  What an invocation changes: the record, the lines logged, and the slots whose state
  was asked of the state manager.
\<close>

record manager =
  Record :: RollingRecord
  logged :: "string list"
  stateRequests :: "uint64 list"

definition genesisTime :: "clients \<Rightarrow> Time" where
  "genesisTime cl = time_Unix (sint (GenesisTime cl))"

text \<open>A panic passes through the caller; any other error is wrapped by it.\<close>

fun wrapError :: "(error \<Rightarrow> error) \<Rightarrow> error \<Rightarrow> error" where
  "wrapError w (RuntimePanic p) = RuntimePanic p"
| "wrapError w err = w err"

subsection \<open>updateToSlot\<close>

definition updateToSlot :: "clients \<Rightarrow> manager \<Rightarrow> uint64 \<Rightarrow> (error + bool) \<times> manager" where
  "updateToSlot cl r slot =
     (if slot \<le> PendingSlot (Record r) then (Inr False, r)
      else
        (let r1 = r\<lparr>stateRequests := stateRequests r @ [slot]\<rparr> in
         case GetStateForSlot cl slot of
           Inl err \<Rightarrow> (Inl (StateAtSlotError slot err), r1)
         | Inr state \<Rightarrow>
             (case UpdateToState cl (Record r1) state of
                (Inl err, record) \<Rightarrow> (Inl (UpdateRecordError err), r1\<lparr>Record := record\<rparr>)
              | (Inr updateStarted, record) \<Rightarrow> (Inr updateStarted, r1\<lparr>Record := record\<rparr>))))"

subsection \<open>The submission scheduler\<close>

text \<open>
  The storage keys of the two submission flags, before hashing: a tag, the node address
  and a 32-byte big-endian number. The balances key takes the block number through
  \<open>big.NewInt(int64(blockNumber))\<close>, whose magnitude \<open>FillBytes\<close> writes.
\<close>

definition balancesSubmittedKey :: "clients \<Rightarrow> uint64 \<Rightarrow> bytes" where
  "balancesSubmittedKey cl blockNumber =
     Keccak256Hash cl
       (''network.balances.submitted.node'' @ nodeAddress cl @
        FillBytes32 (nat \<bar>sint blockNumber\<bar>))"

definition rewardsSubmittedKey :: "clients \<Rightarrow> uint64 \<Rightarrow> bytes" where
  "rewardsSubmittedKey cl currentIndex =
     Keccak256Hash cl
       (''rewards.snapshot.submitted.node'' @ nodeAddress cl @ FillBytes32 (unat currentIndex))"

definition isNetworkBalanceUpdateRequired ::
  "clients \<Rightarrow> NetworkState \<Rightarrow> error + bool \<times> uint64" where
  "isNetworkBalanceUpdateRequired cl state =
     (let blockNumber = big_Uint64 (LatestReportableBalancesBlock state) in
      if blockNumber \<le> big_Uint64 (BalancesBlock state) then Inr (False, 0)
      else
        (case RocketStorage_GetBool cl (balancesSubmittedKey cl blockNumber) of
           Inl err \<Rightarrow> Inl (BalanceSubmittedLookupError blockNumber err)
         | Inr hasSubmitted \<Rightarrow>
             if hasSubmitted then Inr (False, 0)
             else
               (case HeaderByNumber_Time cl blockNumber of
                  Inl err \<Rightarrow> Inl (BlockHeaderError blockNumber err)
                | Inr headerTime \<Rightarrow>
                    (let blockTime = time_Unix (sint headerTime);
                         timeSinceGenesis = Time_Sub blockTime (genesisTime cl);
                         seconds = uint64_of_float64 (uint64_unrepresentable cl)
                                     (Finite (Duration_Seconds timeSinceGenesis)) in
                     if BeaconConfig_SecondsPerSlot state = 0
                     then Inl (RuntimePanic IntegerDivideByZero)
                     else Inr (True, seconds div BeaconConfig_SecondsPerSlot state)))))"

text \<open>
  The time of the state, the number of intervals that have gone by since the start of
  the current one, and the end time of the last of them, as
  \<open>isRewardsIntervalSubmissionRequired\<close> computes them. The product of the seconds per
  slot and the slot number is a \<open>uint64\<close> product; its conversion to a duration and the
  two products of durations wrap.
\<close>

definition stateTime :: "clients \<Rightarrow> NetworkState \<Rightarrow> Time" where
  "stateTime cl state =
     Time_Add (genesisTime cl)
       (int64 (sint (BeaconConfig_SecondsPerSlot state * BeaconSlotNumber state) * time_Second))"

definition intervalsPassed :: "clients \<Rightarrow> NetworkState \<Rightarrow> Duration" where
  "intervalsPassed cl state =
     int64 (quo (Time_Sub (stateTime cl state) (IntervalStart state))
              (sint (IntervalDuration state)))"

definition intervalEndTime :: "clients \<Rightarrow> NetworkState \<Rightarrow> Time" where
  "intervalEndTime cl state =
     Time_Add (IntervalStart state)
       (int64 (sint (IntervalDuration state) * intervalsPassed cl state))"

definition isRewardsIntervalSubmissionRequired ::
  "clients \<Rightarrow> NetworkState \<Rightarrow> error + bool \<times> uint64" where
  "isRewardsIntervalSubmissionRequired cl state =
     (if sint (IntervalDuration state) = 0 then Inl (RuntimePanic IntegerDivideByZero)
      else if intervalsPassed cl state = 0 then Inr (False, 0)
      else
        (let currentIndex = RewardIndex state in
         case RocketStorage_GetBool cl (rewardsSubmittedKey cl currentIndex) of
           Inl err \<Rightarrow> Inl (RewardsSubmittedLookupError currentIndex err)
         | Inr hasSubmitted \<Rightarrow>
             if hasSubmitted then Inr (False, 0)
             else
               (let totalTimespan = Time_Sub (intervalEndTime cl state) (genesisTime cl);
                    targetSlot =
                      uint64_of_float64 (uint64_unrepresentable cl)
                        (math_Ceil
                           (float64_div (Duration_Seconds totalTimespan)
                              (float64_of_int (uint (BeaconConfig_SecondsPerSlot state))))) in
                if BeaconConfig_SlotsPerEpoch state = 0
                then Inl (RuntimePanic IntegerDivideByZero)
                else
                  (let targetSlotEpoch = targetSlot div BeaconConfig_SlotsPerEpoch state in
                   Inr (True,
                        targetSlotEpoch * BeaconConfig_SlotsPerEpoch state +
                        (BeaconConfig_SlotsPerEpoch state - 1))))))"

subsection \<open>ProcessNewHeadState\<close>

definition earliestRequiredSlot :: "bool \<Rightarrow> uint64 \<Rightarrow> bool \<Rightarrow> uint64 \<Rightarrow> uint64" where
  "earliestRequiredSlot isNetworkBalanceUpdateDue networkBalanceSlot
                        isRewardsSubmissionDue rewardsSlot =
     (if isNetworkBalanceUpdateDue \<and> isRewardsSubmissionDue then
        (if networkBalanceSlot < rewardsSlot then networkBalanceSlot else rewardsSlot)
      else if isNetworkBalanceUpdateDue then networkBalanceSlot
      else if isRewardsSubmissionDue then rewardsSlot
      else 0)"

text \<open>
  The source of \<open>ProcessNewHeadState\<close> ends after the test of the required slot, with no
  return statement: when an obligation is due, nothing is done but the line logged
  when the finalized slot is behind, and the model returns no error.
\<close>

definition ProcessNewHeadState ::
  "clients \<Rightarrow> manager \<Rightarrow> NetworkState \<Rightarrow> error option \<times> manager" where
  "ProcessNewHeadState cl r state =
     (case GetLatestFinalizedBeaconBlock cl of
        Inl err \<Rightarrow> (Some (LatestFinalizedBlockError err), r)
      | Inr latestFinalizedSlot \<Rightarrow>
          if BeaconConfig_SlotsPerEpoch state = 0
          then (Some (RuntimePanic IntegerDivideByZero), r)
          else
            (case isNetworkBalanceUpdateRequired cl state of
               Inl err \<Rightarrow> (Some (wrapError BalanceCheckError err), r)
             | Inr (isNetworkBalanceUpdateDue, networkBalanceSlot) \<Rightarrow>
                 (case isRewardsIntervalSubmissionRequired cl state of
                    Inl err \<Rightarrow> (Some (wrapError RewardsCheckError err), r)
                  | Inr (isRewardsSubmissionDue, rewardsSlot) \<Rightarrow>
                      if \<not> isNetworkBalanceUpdateDue \<and> \<not> isRewardsSubmissionDue then
                        (case updateToSlot cl r latestFinalizedSlot of
                           (Inl err, r1) \<Rightarrow> (Some (PreviousUpdateError err), r1)
                         | (Inr updateStarted, r1) \<Rightarrow> (None, r1))
                      else if latestFinalizedSlot <
                              earliestRequiredSlot isNetworkBalanceUpdateDue networkBalanceSlot
                                isRewardsSubmissionDue rewardsSlot
                      then (None, r\<lparr>logged := logged r @ [''%s TODO: Message goes here'']\<rparr>)
                      else (None, r))))"

section \<open>The local file wrapper\<close>

text \<open>
  A \<open>LocalFile\<close> wraps anything that serializes to bytes. The collaborators of
  \<open>CompressedCid\<close> are the serializer of the wrapped value, the zstd encoder at its best
  compression level, the CID of a directory holding a single file, \<open>filepath.Base\<close> and
  the extension constant of the configuration.
\<close>

record 'a LocalFile =
  f :: 'a
  fullPath :: string

record 'a files_env =
  Serialize :: "'a \<Rightarrow> error + bytes"
  zstd_EncodeAll :: "bytes \<Rightarrow> bytes"
  singleFileDirIPFSCid :: "bytes \<Rightarrow> string \<Rightarrow> error + bytes"
  filepath_Base :: "string \<Rightarrow> string"
  RewardsTreeIpfsExtension :: string

definition CompressedCid ::
  "'a files_env \<Rightarrow> 'a LocalFile \<Rightarrow> filesystem \<Rightarrow> (error + bytes) \<times> filesystem" where
  "CompressedCid env lf fs =
     (case Serialize env (f lf) of
        Inl err \<Rightarrow> (Inl (SerializeFileError err), fs)
      | Inr data \<Rightarrow>
          (let compressedBytes = zstd_EncodeAll env data;
               filename = fullPath lf @ RewardsTreeIpfsExtension env in
           case singleFileDirIPFSCid env compressedBytes (filepath_Base env filename) of
             Inl err \<Rightarrow> (Inl (CidError err), fs)
           | Inr c \<Rightarrow>
               (case os_WriteFile fs filename compressedBytes of
                  Inl err \<Rightarrow> (Inl (WriteFileError (fullPath lf) err), fs)
                | Inr fs1 \<Rightarrow> (Inr c, fs1))))"

section \<open>A concrete manager for the examples\<close>

text \<open>
  The examples run the model on a manager whose collaborators are simple stand-ins: paths
  joined with a slash, an identity codec, a record serialized as the decimal text of its
  last processed slot, and a 48-byte digest that pads or cuts its input. The general
  theorems hold for every choice of collaborators.
\<close>

definition example_env :: manager_env where
  "example_env =
     \<lparr>recordsPath = ''/records'',
      SlotsPerEpoch = 32,
      filepath_Join = (\<lambda>dir name. dir @ ''/'' @ name),
      sha512_Sum384 = (\<lambda>b. take 48 (b @ ''------------------------------------------------'')),
      compressor_EncodeAll = (\<lambda>b. b),
      decompressor_DecodeAll = (\<lambda>b. Inr b),
      Record_Serialize = (\<lambda>r. Inr (decimal (unat (LastProcessedSlot r)))),
      DeserializeRollingRecord =
        (\<lambda>b. case strconv_ParseUint b of
               None \<Rightarrow> Inl (ExternalError ''deserialize'')
             | Some s \<Rightarrow>
                 Inr \<lparr>StartSlot = 0, LastProcessedSlot = s, PendingSlot = s,
                      ValidatorTotals = []\<rparr>),
      NewRollingRecord =
        (\<lambda>s. \<lparr>StartSlot = s, LastProcessedSlot = 0, PendingSlot = 0, ValidatorTotals = []\<rparr>)\<rparr>"

definition example_record :: "uint64 \<Rightarrow> RollingRecord" where
  "example_record s =
     \<lparr>StartSlot = 0, LastProcessedSlot = s, PendingSlot = s, ValidatorTotals = []\<rparr>"

definition empty_fs :: filesystem where
  "empty_fs = \<lparr>contents = Map.empty, writable = (\<lambda>p. True)\<rparr>"

text \<open>The file system after \<open>saveRecordToFile\<close> on the example record of a slot.\<close>

definition saved :: "uint64 \<Rightarrow> filesystem \<Rightarrow> filesystem" where
  "saved s fs = snd (saveRecordToFile example_env (example_record s) fs)"

text \<open>Checkpoints saved at slots 100, 200 and 300, in this order.\<close>

definition three_checkpoints :: filesystem where
  "three_checkpoints = saved 300 (saved 200 (saved 100 empty_fs))"

text \<open>
  A line the scan of \<open>loadRecordFromDisk\<close> passes over: a blank one, or a well-formed
  one whose slot is beyond the target slot or the start slot.
\<close>

definition skippedLine :: "uint64 \<Rightarrow> uint64 \<Rightarrow> string \<Rightarrow> bool" where
  "skippedLine startSlot targetSlot line =
     (line = [] \<or>
      (length (strings_Split line ''  '') = 2 \<and>
       (case getSlotFromFilename (strings_Split line ''  '' ! 1) of
          Inl err \<Rightarrow> False
        | Inr slot \<Rightarrow> targetSlot < slot \<or> startSlot < slot)))"

text \<open>
  What the body of the scan returns for a non-blank line it cannot parse: the error of a
  line that does not split into two fields, or of a filename without a slot.
\<close>

definition lineParseError :: "string \<Rightarrow> error option" where
  "lineParseError line =
     (let elems = strings_Split line ''  '' in
      if length elems \<noteq> 2 then Some (CheckpointLineParseError line (length elems))
      else (case getSlotFromFilename (elems ! 1) of
              Inl err \<Rightarrow> Some (CheckpointLineScanError line err)
            | Inr slot \<Rightarrow> None))"

text \<open>The line \<open>saveRecordToFile\<close> writes for the example record of a slot, without its newline.\<close>

definition example_checksum_line :: "uint64 \<Rightarrow> string" where
  "example_checksum_line s =
     hex_EncodeToString (sha512_Sum384 example_env (decimal (unat s))) @ ''  '' @
     ''/records/'' @ recordsFilename s (s div 32)"

definition with_table :: "string \<Rightarrow> filesystem \<Rightarrow> filesystem" where
  "with_table table fs = fs\<lparr>contents := (contents fs)(''/records/checksums.sha384'' \<mapsto> table)\<rparr>"

text \<open>
  A state and clients for the scheduling examples: genesis at time 0, 12 seconds per
  slot, 32 slots per epoch, a reportable balances block 20 whose header carries the
  timestamp 144, a rewards interval of 480 seconds that started at genesis, and a state
  at slot 45. The latest finalized slot is passed in.
\<close>

definition example_state :: NetworkState where
  "example_state =
     \<lparr>ElBlockNumber = 20,
      BeaconSlotNumber = 45,
      BeaconConfig_SlotsPerEpoch = 32,
      BeaconConfig_SecondsPerSlot = 12,
      LatestReportableBalancesBlock = 20,
      BalancesBlock = 10,
      IntervalStart = 0,
      IntervalDuration = 480000000000,
      RewardIndex = 3\<rparr>"

definition example_clients :: "uint64 \<Rightarrow> clients" where
  "example_clients latestFinalizedSlot =
     \<lparr>GenesisTime = 0,
      nodeAddress = ''node-address-20bytes'',
      GetLatestFinalizedBeaconBlock = Inr latestFinalizedSlot,
      GetStateForSlot = (\<lambda>slot. Inr (example_state\<lparr>BeaconSlotNumber := slot\<rparr>)),
      UpdateToState =
        (\<lambda>record state. (Inr True, record\<lparr>PendingSlot := BeaconSlotNumber state\<rparr>)),
      Keccak256Hash = (\<lambda>b. take 32 b),
      RocketStorage_GetBool = (\<lambda>key. Inr False),
      HeaderByNumber_Time = (\<lambda>blockNumber. Inr 144),
      uint64_unrepresentable = (\<lambda>x. 0)\<rparr>"

definition example_manager :: manager where
  "example_manager =
     \<lparr>Record = \<lparr>StartSlot = 0, LastProcessedSlot = 5, PendingSlot = 10, ValidatorTotals = []\<rparr>,
      logged = [],
      stateRequests = []\<rparr>"

text \<open>Stand-ins for the collaborators of \<open>CompressedCid\<close>, on artifacts that are their own bytes.\<close>

definition example_files_env :: "bytes files_env" where
  "example_files_env =
     \<lparr>Serialize = (\<lambda>a. Inr a),
      zstd_EncodeAll = (\<lambda>b. b),
      singleFileDirIPFSCid = (\<lambda>b name. Inr (name @ '':'' @ b)),
      filepath_Base = (\<lambda>path. last (strings_Split path ''/'')),
      RewardsTreeIpfsExtension = ''.zst''\<rparr>"

section \<open>Properties\<close>

lemma strings_Split_from_nonempty: "strings_Split_from sep acc s \<noteq> []"
  by (induction sep acc s rule: strings_Split_from.induct) auto

lemma digitChar_simps:
  "digitChar 0 = CHR ''0''" "digitChar 1 = CHR ''1''" "digitChar 2 = CHR ''2''" "digitChar 3 = CHR ''3''"
  "digitChar 4 = CHR ''4''" "digitChar 5 = CHR ''5''" "digitChar 6 = CHR ''6''" "digitChar 7 = CHR ''7''"
  "digitChar 8 = CHR ''8''" "digitChar 9 = CHR ''9''"
  by code_simp+

lemma digitChar_Suc0: "digitChar (Suc 0) = CHR ''1''"
  by code_simp

lemma hexChar_Suc0: "hexChar (Suc 0) = CHR ''1''"
  by code_simp

lemma hexChar_simps:
  "hexChar 0 = CHR ''0''" "hexChar 1 = CHR ''1''" "hexChar 2 = CHR ''2''" "hexChar 3 = CHR ''3''"
  "hexChar 4 = CHR ''4''" "hexChar 5 = CHR ''5''" "hexChar 6 = CHR ''6''" "hexChar 7 = CHR ''7''"
  "hexChar 8 = CHR ''8''" "hexChar 9 = CHR ''9''" "hexChar 10 = CHR ''a''" "hexChar 11 = CHR ''b''"
  "hexChar 12 = CHR ''c''" "hexChar 13 = CHR ''d''" "hexChar 14 = CHR ''e''" "hexChar 15 = CHR ''f''"
  by code_simp+

lemmas example_eval =
  saved_def saveRecordToFile_def example_env_def example_record_def empty_fs_def
  recordsFilename_def decimal.simps digitChar_simps digitChar_Suc0 hexChar_Suc0
  os_WriteFile_def os_OpenFile_append_def os_ReadFile_def
  file_WriteString_def checksumFilename_def checksumTableFilename_def Let_def
  hex_EncodeToString_def hexChar_simps

lemma strings_Split_nonempty: "strings_Split s [CHR 0x0A] \<noteq> []"
  by (simp add: strings_Split_def strings_Split_from_nonempty)

lemma scanChecksumLines_past_end:
  "0 \<le> i \<Longrightarrow> int (length lines) \<le> i \<Longrightarrow>
   scanChecksumLines env fs startSlot targetSlot lines i = Inl (RuntimePanic IndexOutOfRange)"
  by (simp add: scanChecksumLines.simps)

lemma scanChecksumLines_skipped:
  assumes "0 \<le> i" and "i < int (length lines)"
    and "skippedLine startSlot targetSlot (lines ! nat i)"
  shows "scanChecksumLines env fs startSlot targetSlot lines i =
         scanChecksumLines env fs startSlot targetSlot lines (i + 1)"
proof (cases "lines ! nat i = []")
  case True
  with assms(1,2) show ?thesis
    by (subst scanChecksumLines.simps) simp
next
  case False
  with assms(3) obtain slot where
    two: "length (strings_Split (lines ! nat i) ''  '') = 2" and
    slot: "getSlotFromFilename (strings_Split (lines ! nat i) ''  '' ! 1) = Inr slot" and
    beyond: "targetSlot < slot \<or> startSlot < slot"
    by (auto simp: skippedLine_def split: sum.splits)
  from assms(1,2) False two slot beyond show ?thesis
    by (subst scanChecksumLines.simps) (simp add: Let_def)
qed

subsection \<open>The backward scan of the checksum table\<close>

text \<open>
  C1: the scan of \<open>loadRecordFromDisk\<close> should move from the newest line to the oldest
  and end with a fresh record when no line qualifies. The source increments its index:
  whenever the last line of the checksum table is passed over (it is blank, or its slot
  is beyond a bound) the next read is out of range and the call panics. The empty table
  and every table that ends in a newline are such tables.
\<close>

theorem loadRecordFromDisk_skipped_last_line_panics:
  assumes "contents fs (checksumFilename env) = Some checksumTable"
    and "skippedLine startSlot targetSlot (last (strings_Split checksumTable [CHR 0x0A]))"
  shows "loadRecordFromDisk env fs startSlot targetSlot = Inl (RuntimePanic IndexOutOfRange)"
proof -
  define lines where "lines = strings_Split checksumTable [CHR 0x0A]"
  have ne: "lines \<noteq> []"
    by (simp add: lines_def strings_Split_nonempty)
  then have idx: "0 \<le> int (length lines) - 1" "int (length lines) - 1 < int (length lines)"
    by (cases lines; simp)+
  have "lines ! nat (int (length lines) - 1) = last lines"
    using ne by (simp add: last_conv_nth nat_diff_distrib')
  with assms(2) have "skippedLine startSlot targetSlot (lines ! nat (int (length lines) - 1))"
    by (simp add: lines_def)
  with idx have "scanChecksumLines env fs startSlot targetSlot lines (int (length lines) - 1) =
      scanChecksumLines env fs startSlot targetSlot lines (int (length lines) - 1 + 1)"
    by (rule scanChecksumLines_skipped)
  also have "\<dots> = Inl (RuntimePanic IndexOutOfRange)"
    by (rule scanChecksumLines_past_end) simp_all
  finally show ?thesis
    using assms(1) by (simp add: loadRecordFromDisk_def os_ReadFile_def lines_def Let_def)
qed

theorem loadRecordFromDisk_skipped_last_line_panics_witness:
  "loadRecordFromDisk example_env (empty_fs\<lparr>contents := [''/records/checksums.sha384'' \<mapsto> []]\<rparr>) 50 500
     = Inl (RuntimePanic IndexOutOfRange)"
  using loadRecordFromDisk_skipped_last_line_panics
    [of "empty_fs\<lparr>contents := [''/records/checksums.sha384'' \<mapsto> []]\<rparr>" example_env "[]" 50 500]
  by (simp add: example_env_def checksumFilename_def checksumTableFilename_def skippedLine_def
      strings_Split_def)

text \<open>
  C2: with checkpoints saved at slots 100, 200 and 300, recovery for start slot 250 and
  target slot 280 should load the checkpoint of slot 200, and recovery for start slot 50
  and target slot 500 should give a fresh record. Both calls panic: the table written by
  \<open>saveRecordToFile\<close> ends in a newline, so its last line is blank.
\<close>

theorem recover_three_checkpoints_panics:
  "loadRecordFromDisk example_env three_checkpoints 250 280 = Inl (RuntimePanic IndexOutOfRange) \<and>
   loadRecordFromDisk example_env three_checkpoints 50 500 = Inl (RuntimePanic IndexOutOfRange)"
  by (simp add: loadRecordFromDisk_def example_eval three_checkpoints_def strings_Split_def
      scanChecksumLines.simps)

subsection \<open>Checksum integrity\<close>

text \<open>
  C3: when the SHA-384 digest of the stored file differs from the expected checksum,
  \<open>loadRecordFromFile\<close> fails with the checksum mismatch error and returns no record.
\<close>

theorem loadRecordFromFile_checksum_mismatch:
  assumes "contents fs filename = Some compressedBytes"
    and "sha512_Sum384 env compressedBytes \<noteq> expectedChecksum"
  shows "loadRecordFromFile env fs filename expectedChecksum =
           Inl (ChecksumMismatch filename (hex_EncodeToString expectedChecksum)
                  (hex_EncodeToString (sha512_Sum384 env compressedBytes))) \<and>
         (\<forall>record. loadRecordFromFile env fs filename expectedChecksum \<noteq> Inr record)"
  using assms by (auto simp: loadRecordFromFile_def os_ReadFile_def Let_def)

theorem loadRecordFromFile_checksum_mismatch_witness:
  "loadRecordFromFile example_env
     ((saved 100 empty_fs)\<lparr>contents := (contents (saved 100 empty_fs))(''/records/100-3.json.zst'' \<mapsto> ''101'')\<rparr>)
     ''/records/100-3.json.zst'' (sha512_Sum384 example_env ''100'')
   = Inl (ChecksumMismatch ''/records/100-3.json.zst''
            (hex_EncodeToString (sha512_Sum384 example_env ''100''))
            (hex_EncodeToString (sha512_Sum384 example_env ''101'')))"
  using loadRecordFromFile_checksum_mismatch
    [of "(saved 100 empty_fs)\<lparr>contents := (contents (saved 100 empty_fs))(''/records/100-3.json.zst'' \<mapsto> ''101'')\<rparr>"
        "''/records/100-3.json.zst''" "''101''" example_env "sha512_Sum384 example_env ''100''"]
  by (simp add: example_env_def)

lemmas parse_eval =
  getSlotFromFilename_def matchRecordsFilenameAt_def isDigit_def strconv_ParseUint_def
  decimalValue_def digitValue_def hexValue_def loadRecordFromFile_def

lemma char_of_simps: "char_of (49::nat) = CHR ''1''" "char_of (48::nat) = CHR ''0''" "char_of (45::nat) = CHR ''-''"
  by code_simp+

subsection \<open>Malformed lines of the checksum table\<close>

text \<open>
  C4, as stated: a malformed line or an unparseable filename aborts that candidate only and
  the scan goes on to the next older one. It does not: with the checkpoint of slot 100
  alone in the table, recovery loads it; with a malformed or unparseable line after it,
  the whole call fails with the parse error.
\<close>

theorem malformed_line_fails_whole_recovery:
  "loadRecordFromDisk example_env
     (with_table (example_checksum_line 100) (saved 100 empty_fs)) 150 150
     = Inr (example_record 100) \<and>
   loadRecordFromDisk example_env
     (with_table (example_checksum_line 100 @ [CHR 0x0A] @ ''garbage'') (saved 100 empty_fs)) 150 150
     = Inl (CheckpointLineParseError ''garbage'' 1) \<and>
   loadRecordFromDisk example_env
     (with_table (example_checksum_line 100 @ [CHR 0x0A] @ ''00  /records/latest.json.zst'')
        (saved 100 empty_fs)) 150 150
     = Inl (CheckpointLineScanError ''00  /records/latest.json.zst''
              (FilenameFormatError ''/records/latest.json.zst''))"
  by (simp add: loadRecordFromDisk_def example_eval with_table_def example_checksum_line_def
      strings_Split_def scanChecksumLines.simps parse_eval char_of_simps)

text \<open>
  C4, amended: a non-blank line the scan reads that does not split into exactly two
  fields on the double space, or whose filename has no parseable slot, makes the whole
  recovery fail with that parse error, whatever the other lines are.
\<close>

theorem scanChecksumLines_parse_error_fails_call:
  assumes "0 \<le> i" and "i < int (length lines)" and "lines ! nat i \<noteq> []"
    and "lineParseError (lines ! nat i) = Some err"
  shows "scanChecksumLines env fs startSlot targetSlot lines i = Inl err"
  using assms
  by (subst scanChecksumLines.simps)
     (auto simp: lineParseError_def Let_def split: if_splits sum.splits)

theorem scanChecksumLines_parse_error_fails_call_witness:
  "scanChecksumLines example_env (saved 100 empty_fs) 150 150
     [example_checksum_line 100, ''garbage''] 1 = Inl (CheckpointLineParseError ''garbage'' 1)"
  using scanChecksumLines_parse_error_fails_call
    [of 1 "[example_checksum_line 100, ''garbage'']" "CheckpointLineParseError ''garbage'' 1"
        example_env "saved 100 empty_fs" 150 150]
  by (simp add: lineParseError_def strings_Split_def)


subsection \<open>Saving the same record twice\<close>

lemma saveRecordToFile_once:
  assumes "Record_Serialize env record = Inr bytes"
    and "SlotsPerEpoch env \<noteq> 0"
    and "filename = filepath_Join env (recordsPath env)
           (recordsFilename (LastProcessedSlot record)
              (LastProcessedSlot record div SlotsPerEpoch env))"
    and "writable fs filename" and "writable fs (checksumFilename env)"
    and "filename \<noteq> checksumFilename env"
  shows "saveRecordToFile env record fs =
           (None, fs\<lparr>contents := (contents fs)
              (filename \<mapsto> compressor_EncodeAll env bytes,
               checksumFilename env \<mapsto>
                 (case contents fs (checksumFilename env) of None \<Rightarrow> [] | Some b \<Rightarrow> b) @
                 hex_EncodeToString (sha512_Sum384 env (compressor_EncodeAll env bytes)) @
                 ''  '' @ filename @ [CHR 0x0A])\<rparr>)"
  using assms
  by (auto simp: saveRecordToFile_def Let_def os_WriteFile_def os_OpenFile_append_def
      file_WriteString_def fun_upd_twist split: option.splits)

text \<open>
  C5, as stated: saving twice with an unchanged last processed slot leaves one checkpoint
  file and one catalog entry, the second save being skipped. It is not skipped: the
  second call succeeds and the checksum table holds the line of slot 100 twice.
\<close>

theorem save_twice_writes_two_catalog_entries:
  "fst (saveRecordToFile example_env (example_record 100) (saved 100 empty_fs)) = None \<and>
   contents (saved 100 (saved 100 empty_fs)) ''/records/checksums.sha384'' =
     Some (example_checksum_line 100 @ [CHR 0x0A] @ example_checksum_line 100 @ [CHR 0x0A])"
  by (simp add: example_eval example_checksum_line_def)

text \<open>
  C5, amended: \<open>saveRecordToFile\<close> has no guard on the last processed slot. Two saves of
  the same record, when both writes are permitted, leave one checkpoint file for the slot
  (the second write replaces the first with the same bytes) and append the same line to
  the checksum table twice.
\<close>

theorem saveRecordToFile_twice_appends_two_lines:
  assumes "Record_Serialize env record = Inr bytes"
    and "SlotsPerEpoch env \<noteq> 0"
    and "filename = filepath_Join env (recordsPath env)
           (recordsFilename (LastProcessedSlot record)
              (LastProcessedSlot record div SlotsPerEpoch env))"
    and "writable fs filename" and "writable fs (checksumFilename env)"
    and "filename \<noteq> checksumFilename env"
    and "checksumLine =
           hex_EncodeToString (sha512_Sum384 env (compressor_EncodeAll env bytes)) @
           ''  '' @ filename @ [CHR 0x0A]"
    and "table = (case contents fs (checksumFilename env) of None \<Rightarrow> [] | Some b \<Rightarrow> b)"
    and "fs2 = snd (saveRecordToFile env record (snd (saveRecordToFile env record fs)))"
  shows "fst (saveRecordToFile env record fs) = None \<and>
         fst (saveRecordToFile env record (snd (saveRecordToFile env record fs))) = None \<and>
         contents fs2 filename = Some (compressor_EncodeAll env bytes) \<and>
         contents fs2 (checksumFilename env) = Some (table @ checksumLine @ checksumLine)"
proof -
  let ?fs1 = "snd (saveRecordToFile env record fs)"
  have one: "saveRecordToFile env record fs =
      (None, fs\<lparr>contents := (contents fs)
         (filename \<mapsto> compressor_EncodeAll env bytes,
          checksumFilename env \<mapsto> table @ checksumLine)\<rparr>)"
    using saveRecordToFile_once [OF assms(1-6)] assms(7,8) by simp
  then have w: "writable ?fs1 filename" "writable ?fs1 (checksumFilename env)"
    using assms(4,5) by simp_all
  have c1: "contents ?fs1 (checksumFilename env) = Some (table @ checksumLine)"
    using one by simp
  have two: "saveRecordToFile env record ?fs1 =
      (None, ?fs1\<lparr>contents := (contents ?fs1)
         (filename \<mapsto> compressor_EncodeAll env bytes,
          checksumFilename env \<mapsto> (table @ checksumLine) @ checksumLine)\<rparr>)"
    using saveRecordToFile_once [OF assms(1-3) w assms(6)] c1 assms(7) by simp
  show ?thesis
    using one two assms(6,9) by simp
qed

theorem saveRecordToFile_twice_appends_two_lines_witness:
  "contents (saved 100 (saved 100 empty_fs)) (checksumFilename example_env) =
     Some (example_checksum_line 100 @ [CHR 0x0A] @ example_checksum_line 100 @ [CHR 0x0A])"
  using saveRecordToFile_twice_appends_two_lines
    [of example_env "example_record 100" "''100''" "''/records/100-3.json.zst''" empty_fs
        "example_checksum_line 100 @ [CHR 0x0A]" "[]" "saved 100 (saved 100 empty_fs)"]
  by (simp add: example_eval example_checksum_line_def)



subsection \<open>Determinism of the compressed CID\<close>

text \<open>
  C9: two calls of \<open>CompressedCid\<close> on wrappers whose artifacts serialize to the same
  bytes and whose full paths are equal, whatever the files were before, return the same
  CID and leave the same bytes at the full path with the extension appended: the
  compressed serialization.
\<close>

theorem CompressedCid_deterministic:
  assumes "Serialize env (f lf1) = Serialize env (f lf2)"
    and "fullPath lf1 = fullPath lf2"
    and "CompressedCid env lf1 fs1 = (Inr c1, fs1')"
    and "CompressedCid env lf2 fs2 = (Inr c2, fs2')"
  shows "c1 = c2 \<and>
         contents fs1' (fullPath lf1 @ RewardsTreeIpfsExtension env) =
         contents fs2' (fullPath lf2 @ RewardsTreeIpfsExtension env) \<and>
         (\<exists>data. Serialize env (f lf1) = Inr data \<and>
            contents fs1' (fullPath lf1 @ RewardsTreeIpfsExtension env) =
              Some (zstd_EncodeAll env data))"
  using assms
  by (auto simp: CompressedCid_def Let_def os_WriteFile_def
      split: sum.splits if_splits)

theorem CompressedCid_deterministic_witness:
  "CompressedCid example_files_env \<lparr>f = ''tree'', fullPath = ''/rewards/tree.json''\<rparr> empty_fs =
     (Inr ''tree.json.zst:tree'',
      empty_fs\<lparr>contents := [''/rewards/tree.json.zst'' \<mapsto> ''tree'']\<rparr>) \<and>
   CompressedCid example_files_env \<lparr>f = ''tree'', fullPath = ''/rewards/tree.json''\<rparr>
     (empty_fs\<lparr>contents := [''/rewards/tree.json.zst'' \<mapsto> ''tree'']\<rparr>) =
     (Inr ''tree.json.zst:tree'',
      empty_fs\<lparr>contents := [''/rewards/tree.json.zst'' \<mapsto> ''tree'']\<rparr>)"
proof -
  have a: "CompressedCid example_files_env \<lparr>f = ''tree'', fullPath = ''/rewards/tree.json''\<rparr> empty_fs =
     (Inr ''tree.json.zst:tree'',
      empty_fs\<lparr>contents := [''/rewards/tree.json.zst'' \<mapsto> ''tree'']\<rparr>)"
    by (simp add: CompressedCid_def example_files_env_def os_WriteFile_def empty_fs_def Let_def
        strings_Split_def)
  have b: "CompressedCid example_files_env \<lparr>f = ''tree'', fullPath = ''/rewards/tree.json''\<rparr>
     (empty_fs\<lparr>contents := [''/rewards/tree.json.zst'' \<mapsto> ''tree'']\<rparr>) =
     (Inr ''tree.json.zst:tree'',
      empty_fs\<lparr>contents := [''/rewards/tree.json.zst'' \<mapsto> ''tree'']\<rparr>)"
    by (simp add: CompressedCid_def example_files_env_def os_WriteFile_def empty_fs_def Let_def
        strings_Split_def)
  from CompressedCid_deterministic [OF _ _ a b] a b show ?thesis
    by simp
qed

subsection \<open>Skipping slots up to the pending slot\<close>

text \<open>
  C10: for a slot not above the pending slot of the record, \<open>updateToSlot\<close> returns
  \<open>(false, nil)\<close> at once: no state is asked of the state manager and the manager, its
  record included, is unchanged. The slot may be above the last processed slot.
\<close>

theorem updateToSlot_skips_up_to_pending:
  assumes "slot \<le> PendingSlot (Record r)"
  shows "updateToSlot cl r slot = (Inr False, r)"
  using assms by (simp add: updateToSlot_def)

theorem updateToSlot_skips_up_to_pending_witness:
  "LastProcessedSlot (Record example_manager) < 7 \<and>
   updateToSlot (example_clients 7) example_manager 7 = (Inr False, example_manager)"
  using updateToSlot_skips_up_to_pending [of 7 example_manager "example_clients 7"]
  by (simp add: example_manager_def)


end
